theory Spec2Isabelle
  imports Main
begin

section \<open>Managed results of a job set (qiskit\_ibm/managed/managedresults.py)\<close>

text \<open>
  The class \<^verbatim>\<open>ManagedResults\<close> wraps the results of the jobs of one job set. Its
  methods are embedded here as functions over an explicit object store, because
  \<^verbatim>\<open>combine_results\<close> copies one \<^verbatim>\<open>Result\<close> object and then extends the copy's
  list with references to the entries of other \<^verbatim>\<open>Result\<close> objects.
\<close>

subsection \<open>Exceptions\<close>

text \<open>
  An exception is a value. \<^verbatim>\<open>IBMQManagedResultDataNotAvailable\<close> carries its message and
  its \<^verbatim>\<open>__cause__\<close>, which \<^verbatim>\<open>raise ... from err\<close> sets and a plain \<^verbatim>\<open>raise\<close> leaves
  \<^verbatim>\<open>None\<close>. \<open>JobError\<close> stands for \<^verbatim>\<open>JobError\<close> and its subclasses, \<open>OtherError\<close> for
  any exception that is none of the others.
\<close>

datatype exn =
    IBMQManagedResultDataNotAvailable (message: string) (cause: "exn option")
  | JobError string
  | IBMQJobManagerJobNotFound string
  | IndexError string
  | OtherError string

fun is_JobError :: "exn \<Rightarrow> bool" where
  "is_JobError (JobError m) = True"
| "is_JobError e = False"

subsection \<open>Experiment references and their formatting\<close>

text \<open>
  \<^verbatim>\<open>experiment: Union[str, QuantumCircuit, Schedule, int]\<close>. A circuit or a schedule is
  given by its name and by the text that \<^verbatim>\<open>str()\<close> prints for it.
\<close>

datatype experiment_ref =
    ByName string
  | ByCircuit string string
  | BySchedule string string
  | ByIndex int

fun str_nat :: "nat \<Rightarrow> string" where
  "str_nat n =
     (if n < 10 then [''0123456789'' ! n]
      else str_nat (n div 10) @ [''0123456789'' ! (n mod 10)])"

declare str_nat.simps [simp del]

definition str_int :: "int \<Rightarrow> string" where
  "str_int i = (if i < 0 then CHR ''-'' # str_nat (nat (- i)) else str_nat (nat i))"

text \<open>What \<^verbatim>\<open>'{}'.format(experiment)\<close> inserts.\<close>

fun format_experiment :: "experiment_ref \<Rightarrow> string" where
  "format_experiment (ByName s) = s"
| "format_experiment (ByCircuit n printed) = printed"
| "format_experiment (BySchedule n printed) = printed"
| "format_experiment (ByIndex i) = str_int i"

subsection \<open>The object store\<close>

text \<open>
  Objects live in two heaps, addressed by position: a fresh object is appended, so its
  address is the length of the heap before the allocation. A \<^verbatim>\<open>Result\<close> object has a
  list attribute \<^verbatim>\<open>results\<close> of references to entry objects (\<^verbatim>\<open>ExperimentResult\<close>);
  everything else it holds is the value \<open>header\<close>. The content of an entry object is a
  value of type \<open>'e\<close>. \<open>fetch_log\<close> records every call of a job's \<^verbatim>\<open>result()\<close>.
\<close>

type_synonym addr = nat

record 'h result_obj =
  header :: 'h
  results :: "addr list"

record ('h, 'e) world =
  entry_heap :: "'e list"
  result_heap :: "'h result_obj list"
  fetch_log :: "string list"

subsection \<open>The collaborators: job handles and the job set\<close>

text \<open>
  Modelled from the spec: the job handle (\<^verbatim>\<open>IBMQJob\<close>) is not part of the file. Its
  \<^verbatim>\<open>result()\<close> either returns a reference to the job's \<^verbatim>\<open>Result\<close> object or raises;
  \<open>result_outcome\<close> is what it does, and \<open>job_result\<close> is the call, which the log records.
\<close>

record job_handle =
  job_id :: string
  result_outcome :: "exn + addr"

definition job_result :: "job_handle \<Rightarrow> ('h, 'e) world \<Rightarrow> (exn + addr) \<times> ('h, 'e) world" where
  "job_result j w = (result_outcome j, w\<lparr>fetch_log := fetch_log w @ [job_id j]\<rparr>)"

text \<open>
  Modelled from the spec: the job set (\<^verbatim>\<open>ManagedJobSet\<close>) is not part of the file. \<open>jobs\<close>
  is what \<^verbatim>\<open>jobs()\<close> returns, the job handles in submission order; \<open>job\<close> is what
  \<^verbatim>\<open>job(experiment)\<close> does: it returns the pair of the job (or \<^verbatim>\<open>None\<close>) and the index of
  the experiment within the job, or raises (the docstrings name
  \<^verbatim>\<open>IBMQJobManagerJobNotFound\<close>).
\<close>

record managed_job_set =
  jobs :: "job_handle list"
  job :: "experiment_ref \<Rightarrow> exn + (job_handle option \<times> int)"

subsection \<open>The view\<close>

record managed_results =
  job_set :: managed_job_set
  backend_name :: string
  success :: bool
  combined_results :: "addr option"

text \<open>\<^verbatim>\<open>__init__\<close>\<close>

definition init :: "managed_job_set \<Rightarrow> string \<Rightarrow> bool \<Rightarrow> managed_results" where
  "init js name ok =
     \<lparr>job_set = js, backend_name = name, success = ok, combined_results = None\<rparr>"

subsection \<open>\<^verbatim>\<open>_get_result\<close>\<close>

definition get_result ::
  "managed_results \<Rightarrow> ('h, 'e) world \<Rightarrow> experiment_ref \<Rightarrow> (exn + (addr \<times> int)) \<times> ('h, 'e) world" where
  "get_result self w experiment =
     (case job (job_set self) experiment of
        Inl e \<Rightarrow> (Inl e, w)
      | Inr (None, exp_index) \<Rightarrow>
          (Inl (IBMQManagedResultDataNotAvailable
                  (''Job for experiment '' @ format_experiment experiment
                     @ '' was not successfully submitted.'') None), w)
      | Inr (Some j, exp_index) \<Rightarrow>
          (case job_result j w of
             (Inr result, w') \<Rightarrow> (Inr (result, exp_index), w')
           | (Inl err, w') \<Rightarrow>
               if is_JobError err
               then (Inl (IBMQManagedResultDataNotAvailable
                            (''Result data for experiment '' @ format_experiment experiment
                               @ '' is not available.'') (Some err)), w')
               else (Inl err, w')))"

subsection \<open>The query methods\<close>

text \<open>
  The accessors of \<^verbatim>\<open>qiskit.result.Result\<close> are not part of the repository: each query
  method takes the accessor it forwards to as its first argument. An accessor reads the
  store at the reference of the \<^verbatim>\<open>Result\<close> object and returns a value or raises.
\<close>

definition data ::
  "(('h, 'e) world \<Rightarrow> addr \<Rightarrow> int \<Rightarrow> exn + 'v) \<Rightarrow> managed_results \<Rightarrow> ('h, 'e) world
     \<Rightarrow> experiment_ref \<Rightarrow> (exn + 'v) \<times> ('h, 'e) world" where
  "data Result_data self w experiment =
     (case get_result self w experiment of
        (Inl e, w') \<Rightarrow> (Inl e, w')
      | (Inr (result, exp_index), w') \<Rightarrow> (Result_data w' result exp_index, w'))"

definition get_memory ::
  "(('h, 'e) world \<Rightarrow> addr \<Rightarrow> int \<Rightarrow> exn + 'v) \<Rightarrow> managed_results \<Rightarrow> ('h, 'e) world
     \<Rightarrow> experiment_ref \<Rightarrow> (exn + 'v) \<times> ('h, 'e) world" where
  "get_memory Result_get_memory self w experiment =
     (case get_result self w experiment of
        (Inl e, w') \<Rightarrow> (Inl e, w')
      | (Inr (result, exp_index), w') \<Rightarrow> (Result_get_memory w' result exp_index, w'))"

definition get_counts ::
  "(('h, 'e) world \<Rightarrow> addr \<Rightarrow> int \<Rightarrow> exn + 'v) \<Rightarrow> managed_results \<Rightarrow> ('h, 'e) world
     \<Rightarrow> experiment_ref \<Rightarrow> (exn + 'v) \<times> ('h, 'e) world" where
  "get_counts Result_get_counts self w experiment =
     (case get_result self w experiment of
        (Inl e, w') \<Rightarrow> (Inl e, w')
      | (Inr (result, exp_index), w') \<Rightarrow> (Result_get_counts w' result exp_index, w'))"

definition get_statevector ::
  "(('h, 'e) world \<Rightarrow> addr \<Rightarrow> int \<Rightarrow> int option \<Rightarrow> exn + 'v) \<Rightarrow> managed_results
     \<Rightarrow> ('h, 'e) world \<Rightarrow> experiment_ref \<Rightarrow> int option \<Rightarrow> (exn + 'v) \<times> ('h, 'e) world" where
  "get_statevector Result_get_statevector self w experiment decimals =
     (case get_result self w experiment of
        (Inl e, w') \<Rightarrow> (Inl e, w')
      | (Inr (result, exp_index), w') \<Rightarrow>
          (Result_get_statevector w' result exp_index decimals, w'))"

definition get_unitary ::
  "(('h, 'e) world \<Rightarrow> addr \<Rightarrow> int \<Rightarrow> int option \<Rightarrow> exn + 'v) \<Rightarrow> managed_results
     \<Rightarrow> ('h, 'e) world \<Rightarrow> experiment_ref \<Rightarrow> int option \<Rightarrow> (exn + 'v) \<times> ('h, 'e) world" where
  "get_unitary Result_get_unitary self w experiment decimals =
     (case get_result self w experiment of
        (Inl e, w') \<Rightarrow> (Inl e, w')
      | (Inr (result, exp_index), w') \<Rightarrow>
          (Result_get_unitary w' result exp_index decimals, w'))"

subsection \<open>\<^verbatim>\<open>copy.deepcopy\<close> of a \<^verbatim>\<open>Result\<close>\<close>

text \<open>
  \<^verbatim>\<open>deepcopy\<close> allocates a new entry object for every entry object it reaches and keeps a
  memo from old to new references, so an entry that occurs twice in the list is copied
  once. \<open>copy_entries\<close> walks the list of references with the memo and the entry heap.
\<close>

fun copy_entries ::
  "addr list \<Rightarrow> (addr \<times> addr) list \<Rightarrow> 'e list \<Rightarrow> addr list \<times> (addr \<times> addr) list \<times> 'e list" where
  "copy_entries [] memo es = ([], memo, es)"
| "copy_entries (a # as) memo es =
     (case map_of memo a of
        Some b \<Rightarrow>
          (case copy_entries as memo es of (bs, memo', es') \<Rightarrow> (b # bs, memo', es'))
      | None \<Rightarrow>
          (case copy_entries as ((a, length es) # memo) (es @ [es ! a]) of
             (bs, memo', es') \<Rightarrow> (length es # bs, memo', es')))"

definition deepcopy :: "addr \<Rightarrow> ('h, 'e) world \<Rightarrow> addr \<times> ('h, 'e) world" where
  "deepcopy r w =
     (case copy_entries (results (result_heap w ! r)) [] (entry_heap w) of
        (bs, memo, es') \<Rightarrow>
          (length (result_heap w),
           w\<lparr>entry_heap := es',
             result_heap := result_heap w @ [(result_heap w ! r)\<lparr>results := bs\<rparr>]\<rparr>))"

subsection \<open>\<^verbatim>\<open>combine_results\<close>\<close>

text \<open>\<^verbatim>\<open>combined_result.results.extend(other.results)\<close>, for the objects at \<open>c\<close> and \<open>r\<close>.\<close>

definition extend_results :: "addr \<Rightarrow> addr \<Rightarrow> ('h, 'e) world \<Rightarrow> ('h, 'e) world" where
  "extend_results c r w =
     w\<lparr>result_heap := (result_heap w)
         [c := (result_heap w ! c)
                 \<lparr>results := results (result_heap w ! c) @ results (result_heap w ! r)\<rparr>]\<rparr>"

text \<open>
  The loop \<^verbatim>\<open>for idx in range(1, len(jobs))\<close>, as a recursion over \<^verbatim>\<open>jobs[1:]\<close>. An
  exception of \<^verbatim>\<open>jobs[idx].result()\<close> leaves the loop and the method.
\<close>

fun combine_loop ::
  "job_handle list \<Rightarrow> addr \<Rightarrow> ('h, 'e) world \<Rightarrow> exn option \<times> ('h, 'e) world" where
  "combine_loop [] c w = (None, w)"
| "combine_loop (j # js) c w =
     (case job_result j w of
        (Inl e, w') \<Rightarrow> (Some e, w')
      | (Inr r, w') \<Rightarrow> combine_loop js c (extend_results c r w'))"

text \<open>
  The result is the outcome, the view and the store after the call. The test
  \<^verbatim>\<open>if self._combined_results:\<close> is the test for a cached object: \<^verbatim>\<open>Result\<close> defines
  neither \<^verbatim>\<open>__bool__\<close> nor \<^verbatim>\<open>__len__\<close>, so every \<^verbatim>\<open>Result\<close> object is true.
  \<^verbatim>\<open>jobs[0]\<close> on an empty list raises \<^verbatim>\<open>IndexError\<close>.
\<close>

definition combine_results ::
  "managed_results \<Rightarrow> ('h, 'e) world \<Rightarrow> (exn + addr) \<times> managed_results \<times> ('h, 'e) world" where
  "combine_results self w =
     (case combined_results self of
        Some c \<Rightarrow> (Inr c, self, w)
      | None \<Rightarrow>
          if \<not> success self
          then (Inl (IBMQManagedResultDataNotAvailable
                       ''Results cannot be combined since some of the jobs failed.'' None),
                self, w)
          else
            (case jobs (job_set self) of
               [] \<Rightarrow> (Inl (IndexError ''list index out of range''), self, w)
             | j0 # rest \<Rightarrow>
                 (case job_result j0 w of
                    (Inl e, w1) \<Rightarrow> (Inl e, self, w1)
                  | (Inr r0, w1) \<Rightarrow>
                      (case deepcopy r0 w1 of
                         (c, w2) \<Rightarrow>
                           (case combine_loop rest c w2 of
                              (Some e, w3) \<Rightarrow> (Inl e, self, w3)
                            | (None, w3) \<Rightarrow>
                                (Inr c, self\<lparr>combined_results := Some c\<rparr>, w3))))))"

subsection \<open>Reading and mutating the store\<close>

text \<open>
  The entry sequence of the \<^verbatim>\<open>Result\<close> object at \<open>r\<close> is the list of the contents of its
  entries, in order; its payload is its header with its entry sequence. A store is
  well formed when every reference in a \<^verbatim>\<open>results\<close> list is the address of an entry
  object, as every reference of a Python program is.
\<close>

definition entry_seq :: "('h, 'e) world \<Rightarrow> addr \<Rightarrow> 'e list" where
  "entry_seq w r = map (\<lambda>a. entry_heap w ! a) (results (result_heap w ! r))"

definition payload :: "('h, 'e) world \<Rightarrow> addr \<Rightarrow> 'h \<times> 'e list" where
  "payload w r = (header (result_heap w ! r), entry_seq w r)"

definition wf_world :: "('h, 'e) world \<Rightarrow> bool" where
  "wf_world w =
     list_all (\<lambda>ro. list_all (\<lambda>a. a < length (entry_heap w)) (results ro)) (result_heap w)"

text \<open>
  What a caller can do to an object it holds: change an entry object in place, or change a
  \<^verbatim>\<open>Result\<close> object in place (its attributes or its list).
\<close>

definition set_entry :: "addr \<Rightarrow> 'e \<Rightarrow> ('h, 'e) world \<Rightarrow> ('h, 'e) world" where
  "set_entry a v w = w\<lparr>entry_heap := (entry_heap w)[a := v]\<rparr>"

definition set_result :: "addr \<Rightarrow> 'h result_obj \<Rightarrow> ('h, 'e) world \<Rightarrow> ('h, 'e) world" where
  "set_result c ro w = w\<lparr>result_heap := (result_heap w)[c := ro]\<rparr>"

text \<open>
  The invariant of the memo of \<open>copy_entries\<close>, for a copy that started when the entry
  heap had \<open>n\<close> objects: it maps old objects to new ones of the same content.
\<close>

definition memo_ok :: "nat \<Rightarrow> (addr \<times> addr) list \<Rightarrow> 'e list \<Rightarrow> bool" where
  "memo_ok n memo es =
     (\<forall>(a, b) \<in> set memo. a < n \<and> n \<le> b \<and> b < length es \<and> es ! b = es ! a)"

subsection \<open>The three failures of the view\<close>

text \<open>
  The values of the three \<^verbatim>\<open>raise\<close> statements of the class, under the names the
  specification gives them. All three are instances of the one exception class.
\<close>

definition SubmissionNotFound :: "experiment_ref \<Rightarrow> exn" where
  "SubmissionNotFound experiment =
     IBMQManagedResultDataNotAvailable
       (''Job for experiment '' @ format_experiment experiment
          @ '' was not successfully submitted.'') None"

definition ResultUnavailable :: "experiment_ref \<Rightarrow> exn \<Rightarrow> exn" where
  "ResultUnavailable experiment err =
     IBMQManagedResultDataNotAvailable
       (''Result data for experiment '' @ format_experiment experiment
          @ '' is not available.'') (Some err)"

definition CombinationRefused :: exn where
  "CombinationRefused =
     IBMQManagedResultDataNotAvailable
       ''Results cannot be combined since some of the jobs failed.'' None"

subsection \<open>A job set of two jobs, and one of three with a failed job\<close>

text \<open>
  Job 0 ran the experiments a, b and c, job 1 the experiments d and e; job 2 was
  cancelled. An entry's content is the name of its experiment.
\<close>

definition ex_world :: "(string, string) world" where
  "ex_world =
     \<lparr>entry_heap = [''a'', ''b'', ''c'', ''d'', ''e''],
      result_heap = [\<lparr>header = ''job0'', results = [0, 1, 2]\<rparr>,
                     \<lparr>header = ''job1'', results = [3, 4]\<rparr>],
      fetch_log = []\<rparr>"

definition ex_job0 :: job_handle where
  "ex_job0 = \<lparr>job_id = ''job0'', result_outcome = Inr 0\<rparr>"

definition ex_job1 :: job_handle where
  "ex_job1 = \<lparr>job_id = ''job1'', result_outcome = Inr 1\<rparr>"

definition ex_job2 :: job_handle where
  "ex_job2 = \<lparr>job_id = ''job2'', result_outcome = Inl (JobError ''cancelled'')\<rparr>"

fun ex_lookup :: "experiment_ref \<Rightarrow> exn + (job_handle option \<times> int)" where
  "ex_lookup (ByName n) =
     (if n = ''a'' then Inr (Some ex_job0, 0)
      else if n = ''b'' then Inr (Some ex_job0, 1)
      else if n = ''c'' then Inr (Some ex_job0, 2)
      else if n = ''d'' then Inr (Some ex_job1, 0)
      else if n = ''e'' then Inr (Some ex_job1, 1)
      else if n = ''f'' then Inr (Some ex_job2, 0)
      else Inr (None, - 1))"
| "ex_lookup x = Inr (None, - 1)"

definition ex_view :: managed_results where
  "ex_view = init \<lparr>jobs = [ex_job0, ex_job1], job = ex_lookup\<rparr> ''backend'' True"

definition ex_single_view :: managed_results where
  "ex_single_view = init \<lparr>jobs = [ex_job0], job = ex_lookup\<rparr> ''backend'' True"

definition ex_failed_view :: managed_results where
  "ex_failed_view = init \<lparr>jobs = [ex_job0, ex_job1, ex_job2], job = ex_lookup\<rparr> ''backend'' False"

definition ex_empty_view :: managed_results where
  "ex_empty_view = init \<lparr>jobs = [], job = ex_lookup\<rparr> ''backend'' True"

text \<open>An accessor for the examples: the content of the entry at an offset.\<close>

definition ex_entry_at :: "(string, string) world \<Rightarrow> addr \<Rightarrow> int \<Rightarrow> exn + string" where
  "ex_entry_at w r i =
     (if 0 \<le> i \<and> nat i < length (entry_seq w r) then Inr (entry_seq w r ! nat i)
      else Inl (IndexError ''list index out of range''))"

definition ex_entry_rounded ::
  "(string, string) world \<Rightarrow> addr \<Rightarrow> int \<Rightarrow> int option \<Rightarrow> exn + string" where
  "ex_entry_rounded w r i decimals =
     (case decimals of
        None \<Rightarrow> ex_entry_at w r i
      | Some d \<Rightarrow> map_sum id (\<lambda>v. v @ ''~'' @ str_int d) (ex_entry_at w r i))"

text \<open>The store after \<open>ex_view\<close> has combined its results in \<open>ex_world\<close>.\<close>

definition ex_combined_world :: "(string, string) world" where
  "ex_combined_world =
     \<lparr>entry_heap = [''a'', ''b'', ''c'', ''d'', ''e'', ''a'', ''b'', ''c''],
      result_heap = [\<lparr>header = ''job0'', results = [0, 1, 2]\<rparr>,
                     \<lparr>header = ''job1'', results = [3, 4]\<rparr>,
                     \<lparr>header = ''job0'', results = [5, 6, 7, 3, 4]\<rparr>],
      fetch_log = [''job0'', ''job1'']\<rparr>"

text \<open>The store after \<open>ex_single_view\<close> has combined its results in \<open>ex_world\<close>.\<close>

definition ex_single_world :: "(string, string) world" where
  "ex_single_world =
     \<lparr>entry_heap = [''a'', ''b'', ''c'', ''d'', ''e'', ''a'', ''b'', ''c''],
      result_heap = [\<lparr>header = ''job0'', results = [0, 1, 2]\<rparr>,
                     \<lparr>header = ''job1'', results = [3, 4]\<rparr>,
                     \<lparr>header = ''job0'', results = [5, 6, 7]\<rparr>],
      fetch_log = [''job0'']\<rparr>"

section \<open>Properties of the store operations\<close>

lemma memo_ok_Nil: "memo_ok n [] es"
  by (simp add: memo_ok_def)

lemma memo_ok_lookup:
  "memo_ok n memo es \<Longrightarrow> map_of memo a = Some b \<Longrightarrow> a < n \<and> n \<le> b \<and> b < length es \<and> es ! b = es ! a"
  by (auto simp: memo_ok_def dest: map_of_SomeD)

lemma memo_ok_alloc:
  assumes "memo_ok n memo es" "a < n" "n \<le> length es"
  shows "memo_ok n ((a, length es) # memo) (es @ [es ! a])"
  using assms by (auto simp: memo_ok_def nth_append)

lemma copy_entries_spec:
  assumes "copy_entries as memo es = (bs, memo', es')"
    and "\<forall>a \<in> set as. a < n" and "n \<le> length es" and "memo_ok n memo es"
  shows "length bs = length as \<and> (\<exists>extra. es' = es @ extra)
         \<and> (\<forall>k < length as. n \<le> bs ! k \<and> bs ! k < length es' \<and> es' ! (bs ! k) = es ! (as ! k))"
  using assms
proof (induction as arbitrary: memo es bs memo' es')
  case Nil
  then show ?case by simp
next
  case (Cons a as)
  have a: "a < n" and as: "\<forall>x \<in> set as. x < n" using Cons.prems(2) by simp_all
  show ?case
  proof (cases "map_of memo a")
    case (Some b)
    obtain bs1 where run: "copy_entries as memo es = (bs1, memo', es')" and bs: "bs = b # bs1"
      using Cons.prems(1) Some by (auto split: prod.splits)
    note ih = Cons.IH [OF run as Cons.prems(3) Cons.prems(4)]
    from ih obtain extra where ex: "es' = es @ extra" by blast
    have b: "n \<le> b \<and> b < length es \<and> es ! b = es ! a"
      using memo_ok_lookup [OF Cons.prems(4) Some] by simp
    have hd: "n \<le> b \<and> b < length es' \<and> es' ! b = es ! a"
      using b ex by (simp add: nth_append)
    show ?thesis
    proof (intro conjI allI impI)
      show "length bs = length (a # as)" using ih bs by simp
      show "\<exists>extra. es' = es @ extra" using ex by blast
    next
      fix k assume "k < length (a # as)"
      then show "n \<le> bs ! k" "bs ! k < length es'" "es' ! (bs ! k) = es ! ((a # as) ! k)"
        using ih hd bs by (cases k; simp)+
    qed
  next
    case None
    let ?es1 = "es @ [es ! a]"
    obtain bs1 where run: "copy_entries as ((a, length es) # memo) ?es1 = (bs1, memo', es')"
      and bs: "bs = length es # bs1"
      using Cons.prems(1) None by (auto split: prod.splits)
    have n1: "n \<le> length ?es1" using Cons.prems(3) by simp
    note ih = Cons.IH [OF run as n1 memo_ok_alloc [OF Cons.prems(4) a Cons.prems(3)]]
    from ih obtain extra where ex: "es' = ?es1 @ extra" by blast
    have hd: "n \<le> length es \<and> length es < length es' \<and> es' ! length es = es ! a"
      using Cons.prems(3) ex by (simp add: nth_append)
    have old: "\<And>x. x < n \<Longrightarrow> ?es1 ! x = es ! x"
      using Cons.prems(3) by (simp add: nth_append)
    show ?thesis
    proof (intro conjI allI impI)
      show "length bs = length (a # as)" using ih bs by simp
      show "\<exists>extra. es' = es @ extra" using ex by simp
    next
      fix k assume k: "k < length (a # as)"
      show "n \<le> bs ! k" using ih hd bs k by (cases k; simp)
      show "bs ! k < length es'" using ih hd bs k by (cases k; simp)
      show "es' ! (bs ! k) = es ! ((a # as) ! k)"
      proof (cases k)
        case 0
        then show ?thesis using hd bs by simp
      next
        case (Suc k')
        then have "k' < length as" using k by simp
        then have "es' ! (bs1 ! k') = ?es1 ! (as ! k')" and "as ! k' < n"
          using ih as by auto
        then show ?thesis using Suc bs old by simp
      qed
    qed
  qed
qed



lemma deepcopy_spec:
  assumes r: "r < length (result_heap w)"
    and ok: "\<forall>a \<in> set (results (result_heap w ! r)). a < length (entry_heap w)"
  shows "\<exists>bs extra.
     deepcopy r w =
       (length (result_heap w),
        w\<lparr>entry_heap := entry_heap w @ extra,
          result_heap := result_heap w @ [(result_heap w ! r)\<lparr>results := bs\<rparr>]\<rparr>)
     \<and> length bs = length (results (result_heap w ! r))
     \<and> (\<forall>k < length bs. length (entry_heap w) \<le> bs ! k
           \<and> bs ! k < length (entry_heap w @ extra)
           \<and> (entry_heap w @ extra) ! (bs ! k) = entry_heap w ! (results (result_heap w ! r) ! k))"
proof -
  obtain bs memo' es' where
    run: "copy_entries (results (result_heap w ! r)) [] (entry_heap w) = (bs, memo', es')"
    by (metis prod_cases3)
  note spec = copy_entries_spec [OF run ok order_refl memo_ok_Nil]
  from spec obtain extra where ex: "es' = entry_heap w @ extra" by blast
  have "deepcopy r w =
       (length (result_heap w),
        w\<lparr>entry_heap := entry_heap w @ extra,
          result_heap := result_heap w @ [(result_heap w ! r)\<lparr>results := bs\<rparr>]\<rparr>)"
    using run ex by (simp add: deepcopy_def)
  moreover have "length bs = length (results (result_heap w ! r))" using spec by blast
  moreover have "\<forall>k < length bs. length (entry_heap w) \<le> bs ! k
           \<and> bs ! k < length (entry_heap w @ extra)
           \<and> (entry_heap w @ extra) ! (bs ! k) = entry_heap w ! (results (result_heap w ! r) ! k)"
    using spec ex by simp
  ultimately show ?thesis by blast
qed

lemma combine_loop_spec:
  assumes "map result_outcome rest = map Inr rs"
    and "\<forall>r \<in> set rs. r < length (result_heap w) \<and> r \<noteq> c"
    and "c < length (result_heap w)"
  shows "combine_loop rest c w =
     (None,
      w\<lparr>result_heap := (result_heap w)
          [c := (result_heap w ! c)
             \<lparr>results := results (result_heap w ! c)
                  @ concat (map (\<lambda>r. results (result_heap w ! r)) rs)\<rparr>],
        fetch_log := fetch_log w @ map job_id rest\<rparr>)"
  using assms
proof (induction rest arbitrary: w rs)
  case Nil
  then show ?case by simp
next
  case (Cons j rest)
  then obtain r rs' where rs: "rs = r # rs'" and out: "result_outcome j = Inr r"
    and rest: "map result_outcome rest = map Inr rs'"
    by (cases rs) auto
  let ?w1 = "extend_results c r (w\<lparr>fetch_log := fetch_log w @ [job_id j]\<rparr>)"
  have step: "combine_loop (j # rest) c w = combine_loop rest c ?w1"
    using out by (simp add: job_result_def)
  have rh1: "result_heap ?w1 = (result_heap w)
      [c := (result_heap w ! c)\<lparr>results := results (result_heap w ! c) @ results (result_heap w ! r)\<rparr>]"
    by (simp add: extend_results_def)
  have fl1: "fetch_log ?w1 = fetch_log w @ [job_id j]"
    by (simp add: extend_results_def)
  have eh1: "entry_heap ?w1 = entry_heap w"
    by (simp add: extend_results_def)
  have bounds: "\<forall>r' \<in> set rs'. r' < length (result_heap ?w1) \<and> r' \<noteq> c"
    using Cons.prems(2) rs rh1 by simp
  have c1: "c < length (result_heap ?w1)" using Cons.prems(3) rh1 by simp
  have same: "map (\<lambda>r'. results (result_heap ?w1 ! r')) rs' = map (\<lambda>r'. results (result_heap w ! r')) rs'"
    using Cons.prems(2) rs rh1 by (auto simp: nth_list_update)
  have atc: "result_heap ?w1 ! c
      = (result_heap w ! c)\<lparr>results := results (result_heap w ! c) @ results (result_heap w ! r)\<rparr>"
    using Cons.prems(3) rh1 by simp
  have more: "?w1 = w\<lparr>result_heap := result_heap ?w1, fetch_log := fetch_log w @ [job_id j]\<rparr>"
    by (simp add: extend_results_def)
  show ?case
    unfolding step Cons.IH [OF rest bounds c1] same atc
    by (subst (1 2) more) (simp add: rh1 rs)
qed

lemma combine_results_spec:
  assumes ok: "success self" and none: "combined_results self = None"
    and js: "jobs (job_set self) = j0 # rest"
    and outs: "map result_outcome (j0 # rest) = map Inr (r0 # rs)"
    and refs: "\<forall>r \<in> set (r0 # rs). r < length (result_heap w)"
    and wf: "wf_world w"
  shows "\<exists>bs extra.
     combine_results self w =
       (Inr (length (result_heap w)),
        self\<lparr>combined_results := Some (length (result_heap w))\<rparr>,
        w\<lparr>entry_heap := entry_heap w @ extra,
          result_heap := result_heap w
            @ [\<lparr>header = header (result_heap w ! r0),
                results = bs @ concat (map (\<lambda>r. results (result_heap w ! r)) rs)\<rparr>],
          fetch_log := fetch_log w @ map job_id (j0 # rest)\<rparr>)
     \<and> length bs = length (results (result_heap w ! r0))
     \<and> (\<forall>k < length bs. length (entry_heap w) \<le> bs ! k
           \<and> bs ! k < length (entry_heap w @ extra)
           \<and> (entry_heap w @ extra) ! (bs ! k) = entry_heap w ! (results (result_heap w ! r0) ! k))"
proof -
  let ?w1 = "w\<lparr>fetch_log := fetch_log w @ [job_id j0]\<rparr>"
  have out0: "result_outcome j0 = Inr r0" and outr: "map result_outcome rest = map Inr rs"
    using outs by simp_all
  have r0: "r0 < length (result_heap ?w1)" using refs by simp
  have "result_heap w ! r0 \<in> set (result_heap w)" using refs by simp
  then have ok0: "\<forall>a \<in> set (results (result_heap ?w1 ! r0)). a < length (entry_heap ?w1)"
    using wf by (auto simp: wf_world_def list_all_iff)
  from deepcopy_spec [OF r0 ok0] obtain bs extra where
    dc: "deepcopy r0 ?w1 =
       (length (result_heap w),
        ?w1\<lparr>entry_heap := entry_heap w @ extra,
          result_heap := result_heap w @ [(result_heap w ! r0)\<lparr>results := bs\<rparr>]\<rparr>)"
    and len: "length bs = length (results (result_heap w ! r0))"
    and fresh: "\<forall>k < length bs. length (entry_heap w) \<le> bs ! k
           \<and> bs ! k < length (entry_heap w @ extra)
           \<and> (entry_heap w @ extra) ! (bs ! k) = entry_heap w ! (results (result_heap w ! r0) ! k)"
    by auto
  let ?c = "length (result_heap w)"
  let ?w2 = "?w1\<lparr>entry_heap := entry_heap w @ extra,
          result_heap := result_heap w @ [(result_heap w ! r0)\<lparr>results := bs\<rparr>]\<rparr>"
  have b2: "\<forall>r \<in> set rs. r < length (result_heap ?w2) \<and> r \<noteq> ?c" using refs by auto
  have c2: "?c < length (result_heap ?w2)" by simp
  have same: "map (\<lambda>r. results (result_heap ?w2 ! r)) rs = map (\<lambda>r. results (result_heap w ! r)) rs"
    using refs by (simp add: nth_append)
  have loop: "combine_loop rest ?c ?w2 =
     (None,
      w\<lparr>entry_heap := entry_heap w @ extra,
        result_heap := result_heap w
            @ [\<lparr>header = header (result_heap w ! r0),
                results = bs @ concat (map (\<lambda>r. results (result_heap w ! r)) rs)\<rparr>],
        fetch_log := fetch_log w @ map job_id (j0 # rest)\<rparr>)"
    unfolding combine_loop_spec [OF outr b2 c2] same by simp
  have "combine_results self w =
       (Inr ?c, self\<lparr>combined_results := Some ?c\<rparr>,
        w\<lparr>entry_heap := entry_heap w @ extra,
          result_heap := result_heap w
            @ [\<lparr>header = header (result_heap w ! r0),
                results = bs @ concat (map (\<lambda>r. results (result_heap w ! r)) rs)\<rparr>],
          fetch_log := fetch_log w @ map job_id (j0 # rest)\<rparr>)"
    using ok none js out0 dc loop by (simp add: combine_results_def job_result_def)
  then show ?thesis using len fresh by blast
qed


lemma concat_nth_offset:
  "i < length xss \<Longrightarrow> k < length (xss ! i)
     \<Longrightarrow> concat xss ! (sum_list (map length (take i xss)) + k) = xss ! i ! k"
proof (induction xss arbitrary: i)
  case Nil
  then show ?case by simp
next
  case (Cons xs xss)
  show ?case
  proof (cases i)
    case 0
    then show ?thesis using Cons.prems by (simp add: nth_append)
  next
    case (Suc i')
    then show ?thesis using Cons.prems Cons.IH [of i'] by (simp add: nth_append)
  qed
qed

lemma payload_preserved:
  assumes "\<forall>a \<in> set (results (result_heap w ! r)). a < length (entry_heap w)"
    and "result_heap w' ! r = result_heap w ! r"
    and "\<forall>a < length (entry_heap w). entry_heap w' ! a = entry_heap w ! a"
  shows "payload w' r = payload w r"
  using assms by (simp add: payload_def entry_seq_def)

lemma wf_world_entries:
  "wf_world w \<Longrightarrow> r < length (result_heap w)
     \<Longrightarrow> \<forall>a \<in> set (results (result_heap w ! r)). a < length (entry_heap w)"
  using nth_mem [of r "result_heap w"] by (auto simp: wf_world_def list_all_iff)

lemma get_result_not_found:
  "job (job_set self) experiment = Inr (None, exp_index)
     \<Longrightarrow> get_result self w experiment = (Inl (SubmissionNotFound experiment), w)"
  by (simp add: get_result_def SubmissionNotFound_def)

lemma get_result_job_error:
  "job (job_set self) experiment = Inr (Some j, exp_index) \<Longrightarrow> result_outcome j = Inl err
     \<Longrightarrow> is_JobError err
     \<Longrightarrow> get_result self w experiment
         = (Inl (ResultUnavailable experiment err), w\<lparr>fetch_log := fetch_log w @ [job_id j]\<rparr>)"
  by (simp add: get_result_def job_result_def ResultUnavailable_def)

lemma get_result_ok:
  "job (job_set self) experiment = Inr (Some j, exp_index) \<Longrightarrow> result_outcome j = Inr r
     \<Longrightarrow> get_result self w experiment
         = (Inr (r, exp_index), w\<lparr>fetch_log := fetch_log w @ [job_id j]\<rparr>)"
  by (simp add: get_result_def job_result_def)

lemma combine_results_refused:
  "combined_results self = None \<Longrightarrow> \<not> success self
     \<Longrightarrow> combine_results self w = (Inl CombinationRefused, self, w)"
  by (simp add: combine_results_def CombinationRefused_def)

lemma combine_loop_fails:
  "\<exists>j \<in> set rest. isl (result_outcome j) \<Longrightarrow> \<exists>e w'. combine_loop rest c w = (Some e, w')"
proof (induction rest arbitrary: w)
  case Nil
  then show ?case by simp
next
  case (Cons j rest)
  show ?case
  proof (cases "result_outcome j")
    case (Inl e)
    then show ?thesis by (simp add: job_result_def)
  next
    case (Inr r)
    then have "\<exists>j \<in> set rest. isl (result_outcome j)" using Cons.prems by auto
    from Cons.IH [OF this] show ?thesis using Inr by (simp add: job_result_def)
  qed
qed

lemma combine_results_no_partial:
  assumes none: "combined_results self = None"
    and bad: "\<exists>j \<in> set (jobs (job_set self)). isl (result_outcome j)"
  shows "\<exists>e w'. combine_results self w = (Inl e, self, w')"
proof (cases "success self")
  case False
  then show ?thesis using none by (simp add: combine_results_def)
next
  case True
  from bad obtain j0 rest where js: "jobs (job_set self) = j0 # rest"
    by (cases "jobs (job_set self)") auto
  show ?thesis
  proof (cases "result_outcome j0")
    case (Inl e)
    then show ?thesis using True none js by (simp add: combine_results_def job_result_def)
  next
    case (Inr r0)
    then have rest: "\<exists>j \<in> set rest. isl (result_outcome j)" using bad js by auto
    obtain c w2 where dc: "deepcopy r0 (w\<lparr>fetch_log := fetch_log w @ [job_id j0]\<rparr>) = (c, w2)"
      by (cases "deepcopy r0 (w\<lparr>fetch_log := fetch_log w @ [job_id j0]\<rparr>)")
    from combine_loop_fails [OF rest] obtain e w3 where "combine_loop rest c w2 = (Some e, w3)"
      by blast
    then show ?thesis
      using True none js Inr dc by (simp add: combine_results_def job_result_def)
  qed
qed

lemma combine_results_entry_seq:
  assumes ok: "success self" and none: "combined_results self = None"
    and js: "jobs (job_set self) = j0 # rest"
    and outs: "map result_outcome (j0 # rest) = map Inr (r0 # rs)"
    and refs: "\<forall>r \<in> set (r0 # rs). r < length (result_heap w)"
    and wf: "wf_world w"
  shows "\<exists>w'. combine_results self w
           = (Inr (length (result_heap w)),
              self\<lparr>combined_results := Some (length (result_heap w))\<rparr>, w')
       \<and> payload w' (length (result_heap w))
           = (header (result_heap w ! r0), concat (map (entry_seq w) (r0 # rs)))"
proof -
  from combine_results_spec [OF ok none js outs refs wf] obtain bs extra where
    run: "combine_results self w =
       (Inr (length (result_heap w)),
        self\<lparr>combined_results := Some (length (result_heap w))\<rparr>,
        w\<lparr>entry_heap := entry_heap w @ extra,
          result_heap := result_heap w
            @ [\<lparr>header = header (result_heap w ! r0),
                results = bs @ concat (map (\<lambda>r. results (result_heap w ! r)) rs)\<rparr>],
          fetch_log := fetch_log w @ map job_id (j0 # rest)\<rparr>)"
    and len: "length bs = length (results (result_heap w ! r0))"
    and fresh: "\<forall>k < length bs. length (entry_heap w) \<le> bs ! k
           \<and> bs ! k < length (entry_heap w @ extra)
           \<and> (entry_heap w @ extra) ! (bs ! k) = entry_heap w ! (results (result_heap w ! r0) ! k)"
    by blast
  have copied: "map (\<lambda>a. (entry_heap w @ extra) ! a) bs = entry_seq w r0"
    unfolding entry_seq_def using len fresh by (intro nth_equalityI) simp_all
  have shared: "map (\<lambda>a. (entry_heap w @ extra) ! a) (results (result_heap w ! r))
      = entry_seq w r" if "r \<in> set rs" for r
  proof -
    have "r < length (result_heap w)" using refs that by simp
    from wf_world_entries [OF wf this] show ?thesis
      by (simp add: entry_seq_def nth_append)
  qed
  have "map (\<lambda>a. (entry_heap w @ extra) ! a)
          (bs @ concat (map (\<lambda>r. results (result_heap w ! r)) rs))
        = concat (map (entry_seq w) (r0 # rs))"
    using copied shared by (simp add: map_concat cong: map_cong)
  then show ?thesis using run by (simp add: payload_def entry_seq_def)
qed

lemma combine_results_frame:
  assumes ok: "success self" and none: "combined_results self = None"
    and js: "jobs (job_set self) = j0 # rest"
    and outs: "map result_outcome (j0 # rest) = map Inr (r0 # rs)"
    and refs: "\<forall>r \<in> set (r0 # rs). r < length (result_heap w)"
    and wf: "wf_world w"
  shows "\<exists>w' bs. combine_results self w
           = (Inr (length (result_heap w)),
              self\<lparr>combined_results := Some (length (result_heap w))\<rparr>, w')
       \<and> results (result_heap w' ! length (result_heap w))
           = bs @ concat (map (\<lambda>r. results (result_heap w ! r)) rs)
       \<and> length bs = length (results (result_heap w ! r0))
       \<and> (\<forall>r \<in> set (r0 # rs). payload w' r = payload w r)
       \<and> (\<forall>r \<in> set (r0 # rs). \<forall>ro.
             payload (set_result (length (result_heap w)) ro w') r = payload w r)
       \<and> (\<forall>b \<in> set bs. \<forall>v. \<forall>r \<in> set (r0 # rs).
             payload (set_entry b v w') r = payload w r)"
proof -
  from combine_results_spec [OF ok none js outs refs wf] obtain bs extra where
    run: "combine_results self w =
       (Inr (length (result_heap w)),
        self\<lparr>combined_results := Some (length (result_heap w))\<rparr>,
        w\<lparr>entry_heap := entry_heap w @ extra,
          result_heap := result_heap w
            @ [\<lparr>header = header (result_heap w ! r0),
                results = bs @ concat (map (\<lambda>r. results (result_heap w ! r)) rs)\<rparr>],
          fetch_log := fetch_log w @ map job_id (j0 # rest)\<rparr>)"
    and len: "length bs = length (results (result_heap w ! r0))"
    and fresh: "\<forall>k < length bs. length (entry_heap w) \<le> bs ! k
           \<and> bs ! k < length (entry_heap w @ extra)
           \<and> (entry_heap w @ extra) ! (bs ! k) = entry_heap w ! (results (result_heap w ! r0) ! k)"
    by blast
  let ?c = "length (result_heap w)"
  let ?w' = "w\<lparr>entry_heap := entry_heap w @ extra,
          result_heap := result_heap w
            @ [\<lparr>header = header (result_heap w ! r0),
                results = bs @ concat (map (\<lambda>r. results (result_heap w ! r)) rs)\<rparr>],
          fetch_log := fetch_log w @ map job_id (j0 # rest)\<rparr>"
  have at_c: "results (result_heap ?w' ! ?c)
      = bs @ concat (map (\<lambda>r. results (result_heap w ! r)) rs)"
    by simp
  have bs_fresh: "length (entry_heap w) \<le> b" if "b \<in> set bs" for b
    using that fresh by (auto simp: in_set_conv_nth)
  have kept: "payload ?w' r = payload w r" if "r \<in> set (r0 # rs)" for r
  proof -
    have r: "r < length (result_heap w)" using refs that by blast
    show ?thesis
      by (rule payload_preserved [OF wf_world_entries [OF wf r]]) (simp_all add: r nth_append)
  qed
  have kept_result: "payload (set_result ?c ro ?w') r = payload w r"
    if "r \<in> set (r0 # rs)" for r ro
  proof -
    have r: "r < length (result_heap w)" using refs that by blast
    show ?thesis
      by (rule payload_preserved [OF wf_world_entries [OF wf r]])
        (use r in \<open>simp_all add: set_result_def nth_append\<close>)
  qed
  have kept_entry: "payload (set_entry b v ?w') r = payload w r"
    if "b \<in> set bs" and "r \<in> set (r0 # rs)" for b v r
  proof -
    have r: "r < length (result_heap w)" using refs that(2) by blast
    show ?thesis
      by (rule payload_preserved [OF wf_world_entries [OF wf r]])
        (use r bs_fresh [OF that(1)] in \<open>simp_all add: set_entry_def nth_append\<close>)
  qed
  show ?thesis
    using run at_c len kept kept_result kept_entry by blast
qed

section \<open>The claims of the specification\<close>

text \<open>
  C1. For a job set of at least one job whose jobs all return their results, on a view that
  has not combined yet, combine\_results returns an object whose entry sequence has as its
  length the sum of the jobs' entry counts, and whose entry at the position (sum of the
  counts of the jobs before job i) + k is entry k of job i.
\<close>

theorem combine_results_concatenates:
  assumes "success self" and "combined_results self = None"
    and "jobs (job_set self) = js" and "js \<noteq> []"
    and "map result_outcome js = map Inr rs"
    and "list_all (\<lambda>r. r < length (result_heap w)) rs"
    and "wf_world w"
  shows "\<exists>c w'. combine_results self w = (Inr c, self\<lparr>combined_results := Some c\<rparr>, w')
       \<and> length (entry_seq w' c) = sum_list (map (\<lambda>r. length (entry_seq w r)) rs)
       \<and> (\<forall>i < length rs. \<forall>k < length (entry_seq w (rs ! i)).
             entry_seq w' c ! (sum_list (map (\<lambda>r. length (entry_seq w r)) (take i rs)) + k)
               = entry_seq w (rs ! i) ! k)"
proof -
  obtain j0 rest where js: "js = j0 # rest" using assms(4) by (cases js) auto
  obtain r0 rs' where rs: "rs = r0 # rs'" using assms(5) js by (cases rs) auto
  have refs: "\<forall>r \<in> set (r0 # rs'). r < length (result_heap w)"
    using assms(6) rs by (simp add: list_all_iff)
  from combine_results_entry_seq [OF assms(1,2) assms(3) [unfolded js] assms(5) [unfolded js rs]
      refs assms(7)]
  obtain w' where run: "combine_results self w
           = (Inr (length (result_heap w)),
              self\<lparr>combined_results := Some (length (result_heap w))\<rparr>, w')"
    and pl: "payload w' (length (result_heap w))
           = (header (result_heap w ! r0), concat (map (entry_seq w) rs))"
    using rs by blast
  have seq: "entry_seq w' (length (result_heap w)) = concat (map (entry_seq w) rs)"
    using pl by (simp add: payload_def)
  have len: "length (entry_seq w' (length (result_heap w)))
      = sum_list (map (\<lambda>r. length (entry_seq w r)) rs)"
    unfolding seq by (simp add: length_concat comp_def)
  have pos: "entry_seq w' (length (result_heap w))
        ! (sum_list (map (\<lambda>r. length (entry_seq w r)) (take i rs)) + k)
      = entry_seq w (rs ! i) ! k"
    if "i < length rs" and "k < length (entry_seq w (rs ! i))" for i k
    using concat_nth_offset [of i "map (entry_seq w) rs" k] that
    unfolding seq by (simp add: take_map comp_def)
  show ?thesis using run len pos by blast
qed

theorem combine_results_concatenates_witness:
  "success ex_view \<and> combined_results ex_view = None
   \<and> jobs (job_set ex_view) = [ex_job0, ex_job1]
   \<and> map result_outcome [ex_job0, ex_job1] = map Inr [0, 1]
   \<and> wf_world ex_world
   \<and> (\<exists>c w'. combine_results ex_view ex_world = (Inr c, ex_view\<lparr>combined_results := Some c\<rparr>, w')
         \<and> length (entry_seq w' c) = 5
         \<and> entry_seq w' c ! 1 = ''b''
         \<and> entry_seq w' c ! 3 = ''d''
         \<and> entry_seq w' c ! 4 = ''e'')"
proof -
  have h1: "success ex_view"
    by (simp add: ex_world_def ex_view_def ex_job0_def ex_job1_def init_def)
  have h2: "combined_results ex_view = None"
    by (simp add: ex_world_def ex_view_def ex_job0_def ex_job1_def init_def)
  have h3: "jobs (job_set ex_view) = [ex_job0, ex_job1]"
    by (simp add: ex_world_def ex_view_def ex_job0_def ex_job1_def init_def)
  have h4: "[ex_job0, ex_job1] \<noteq> []" by simp
  have h5: "map result_outcome [ex_job0, ex_job1] = map Inr [0, 1]"
    by (simp add: ex_world_def ex_view_def ex_job0_def ex_job1_def init_def)
  have h6: "list_all (\<lambda>r. r < length (result_heap ex_world)) [0, 1]"
    by (simp add: ex_world_def ex_view_def ex_job0_def ex_job1_def init_def)
  have h7: "wf_world ex_world"
    by (simp add: wf_world_def ex_world_def ex_view_def ex_job0_def ex_job1_def init_def)
  from combine_results_concatenates [OF h1 h2 h3 h4 h5 h6 h7]
  obtain c w' where run: "combine_results ex_view ex_world
        = (Inr c, ex_view\<lparr>combined_results := Some c\<rparr>, w')"
    and len: "length (entry_seq w' c)
        = sum_list (map (\<lambda>r. length (entry_seq ex_world r)) [0, 1])"
    and pos: "\<forall>i < length [0::nat, 1]. \<forall>k < length (entry_seq ex_world ([0, 1] ! i)).
             entry_seq w' c ! (sum_list (map (\<lambda>r. length (entry_seq ex_world r)) (take i [0, 1])) + k)
               = entry_seq ex_world ([0, 1] ! i) ! k"
    by blast
  have s0: "entry_seq ex_world 0 = [''a'', ''b'', ''c'']"
    and s1: "entry_seq ex_world (Suc 0) = [''d'', ''e'']"
    by (simp_all add: entry_seq_def ex_world_def)
  have "length (entry_seq w' c) = 5" using len by (simp add: s0 s1)
  moreover have "entry_seq w' c ! 1 = ''b''"
    using pos [rule_format, of 0 1] by (simp add: s0 s1)
  moreover have "entry_seq w' c ! 3 = ''d''"
    using pos [rule_format, of 1 0] by (simp add: s0 s1 numeral_3_eq_3)
  moreover have "entry_seq w' c ! 4 = ''e''"
    using pos [rule_format, of 1 1] by (simp add: s0 s1 eval_nat_numeral)
  ultimately show ?thesis using h1 h2 h3 h5 h7 run by blast
qed

text \<open>
  C2. A view whose success flag is false and whose cache is empty refuses to combine: the
  call fails with the CombinationRefused error, and the view and the store after the call
  are the ones before it, so nothing is produced or cached.
\<close>

theorem combine_results_refuses_unsuccessful:
  assumes "\<not> success self" and "combined_results self = None"
  shows "combine_results self w = (Inl CombinationRefused, self, w)"
  using assms by (simp add: combine_results_refused)

theorem combine_results_refuses_unsuccessful_witness:
  "\<not> success ex_failed_view \<and> combined_results ex_failed_view = None
   \<and> combine_results ex_failed_view ex_world
       = (Inl (IBMQManagedResultDataNotAvailable
                 ''Results cannot be combined since some of the jobs failed.'' None),
          ex_failed_view, ex_world)"
proof -
  have h1: "\<not> success ex_failed_view"
    by (simp add: ex_world_def ex_failed_view_def ex_job0_def ex_job1_def ex_job2_def init_def)
  have h2: "combined_results ex_failed_view = None"
    by (simp add: ex_world_def ex_failed_view_def ex_job0_def ex_job1_def ex_job2_def init_def)
  show ?thesis
    using h1 h2 combine_results_refuses_unsuccessful [OF h1 h2, of ex_world]
    by (simp add: CombinationRefused_def)
qed

text \<open>
  C3. Once a call of combine\_results has returned an object, every later call on the view,
  in whatever store, returns that same object and leaves the view and the store as they
  are: nothing is copied and no job's result is fetched.
\<close>

theorem combine_results_cached:
  assumes "combine_results self w = (Inr c, self', w')"
  shows "combine_results self' w'' = (Inr c, self', w'')"
proof (cases "combined_results self")
  case (Some c0)
  then show ?thesis using assms by (auto simp: combine_results_def)
next
  case None
  then have "combined_results self' = Some c"
    using assms
    by (auto simp: combine_results_def split: if_splits list.splits prod.splits sum.splits option.splits)
  then show ?thesis by (simp add: combine_results_def)
qed

theorem combine_results_cached_witness:
  "combine_results ex_view ex_world
     = (Inr 2, ex_view\<lparr>combined_results := Some 2\<rparr>,
        \<lparr>entry_heap = [''a'', ''b'', ''c'', ''d'', ''e'', ''a'', ''b'', ''c''],
         result_heap = [\<lparr>header = ''job0'', results = [0, 1, 2]\<rparr>,
                        \<lparr>header = ''job1'', results = [3, 4]\<rparr>,
                        \<lparr>header = ''job0'', results = [5, 6, 7, 3, 4]\<rparr>],
         fetch_log = [''job0'', ''job1'']\<rparr>)
   \<and> combine_results (ex_view\<lparr>combined_results := Some 2\<rparr>) ex_world
     = (Inr 2, ex_view\<lparr>combined_results := Some 2\<rparr>, ex_world)"
proof -
  have h: "combine_results ex_view ex_world
     = (Inr 2, ex_view\<lparr>combined_results := Some 2\<rparr>,
        \<lparr>entry_heap = [''a'', ''b'', ''c'', ''d'', ''e'', ''a'', ''b'', ''c''],
         result_heap = [\<lparr>header = ''job0'', results = [0, 1, 2]\<rparr>,
                        \<lparr>header = ''job1'', results = [3, 4]\<rparr>,
                        \<lparr>header = ''job0'', results = [5, 6, 7, 3, 4]\<rparr>],
         fetch_log = [''job0'', ''job1'']\<rparr>)"
    by (simp add: combine_results_def job_result_def deepcopy_def extend_results_def
        ex_world_def ex_view_def ex_job0_def ex_job1_def init_def)
  show ?thesis using h combine_results_cached [OF h, of ex_world] by simp
qed

text \<open>
  C4, as the code has it. After a successful combination the returned object is a new one;
  no job's stored result has changed; changing the returned object in place, or any of its
  first c0 entries (the copies of job 0's), changes no job's stored result; the entries
  after the first c0 are the very entry objects of the stored results of jobs 1 to N-1,
  in order, not copies of them.
\<close>

theorem combine_results_sharing:
  assumes "success self" and "combined_results self = None"
    and "jobs (job_set self) = j0 # rest"
    and "map result_outcome (j0 # rest) = map Inr (r0 # rs)"
    and "list_all (\<lambda>r. r < length (result_heap w)) (r0 # rs)"
    and "wf_world w"
  shows "\<exists>c w'. combine_results self w = (Inr c, self\<lparr>combined_results := Some c\<rparr>, w')
       \<and> c \<notin> set (r0 # rs)
       \<and> (\<forall>r \<in> set (r0 # rs). payload w' r = payload w r)
       \<and> (\<forall>r \<in> set (r0 # rs). \<forall>ro. payload (set_result c ro w') r = payload w r)
       \<and> (\<forall>k < length (results (result_heap w ! r0)). \<forall>v. \<forall>r \<in> set (r0 # rs).
             payload (set_entry (results (result_heap w' ! c) ! k) v w') r = payload w r)
       \<and> drop (length (results (result_heap w ! r0))) (results (result_heap w' ! c))
           = concat (map (\<lambda>r. results (result_heap w ! r)) rs)"
proof -
  have refs: "\<forall>r \<in> set (r0 # rs). r < length (result_heap w)"
    using assms(5) by (simp add: list_all_iff)
  from combine_results_frame [OF assms(1,2,3,4) refs assms(6)]
  obtain w' bs where
    run: "combine_results self w
           = (Inr (length (result_heap w)),
              self\<lparr>combined_results := Some (length (result_heap w))\<rparr>, w')"
    and at_c: "results (result_heap w' ! length (result_heap w))
           = bs @ concat (map (\<lambda>r. results (result_heap w ! r)) rs)"
    and len: "length bs = length (results (result_heap w ! r0))"
    and kept: "\<forall>r \<in> set (r0 # rs). payload w' r = payload w r"
    and kept_result: "\<forall>r \<in> set (r0 # rs). \<forall>ro.
             payload (set_result (length (result_heap w)) ro w') r = payload w r"
    and kept_entry: "\<forall>b \<in> set bs. \<forall>v. \<forall>r \<in> set (r0 # rs).
             payload (set_entry b v w') r = payload w r"
    by blast
  have new: "length (result_heap w) \<notin> set (r0 # rs)" using refs by blast
  have copies: "\<forall>k < length (results (result_heap w ! r0)). \<forall>v. \<forall>r \<in> set (r0 # rs).
      payload (set_entry (results (result_heap w' ! length (result_heap w)) ! k) v w') r
        = payload w r"
  proof (intro allI impI)
    fix k v assume k: "k < length (results (result_heap w ! r0))"
    then have "results (result_heap w' ! length (result_heap w)) ! k = bs ! k"
      and "bs ! k \<in> set bs"
      using at_c len by (simp_all add: nth_append)
    then show "\<forall>r \<in> set (r0 # rs).
        payload (set_entry (results (result_heap w' ! length (result_heap w)) ! k) v w') r
          = payload w r"
      using kept_entry by simp
  qed
  have aliases: "drop (length (results (result_heap w ! r0)))
        (results (result_heap w' ! length (result_heap w)))
      = concat (map (\<lambda>r. results (result_heap w ! r)) rs)"
    using at_c len by simp
  show ?thesis using run new kept kept_result copies aliases by blast
qed

theorem combine_results_sharing_witness:
  "success ex_view \<and> combined_results ex_view = None
   \<and> jobs (job_set ex_view) = [ex_job0, ex_job1]
   \<and> map result_outcome [ex_job0, ex_job1] = map Inr [0, 1]
   \<and> wf_world ex_world
   \<and> combine_results ex_view ex_world
       = (Inr 2, ex_view\<lparr>combined_results := Some 2\<rparr>, ex_combined_world)
   \<and> payload ex_combined_world 0 = payload ex_world 0
   \<and> payload ex_combined_world 1 = payload ex_world 1
   \<and> payload (set_entry 5 ''x'' ex_combined_world) 0 = payload ex_world 0
   \<and> payload (set_entry 5 ''x'' ex_combined_world) 1 = payload ex_world 1
   \<and> drop 3 (results (result_heap ex_combined_world ! 2)) = [3, 4]"
proof -
  have h1: "success ex_view"
    by (simp add: ex_world_def ex_view_def ex_job0_def ex_job1_def init_def)
  have h2: "combined_results ex_view = None"
    by (simp add: ex_world_def ex_view_def ex_job0_def ex_job1_def init_def)
  have h3: "jobs (job_set ex_view) = [ex_job0, ex_job1]"
    by (simp add: ex_world_def ex_view_def ex_job0_def ex_job1_def init_def)
  have h4: "map result_outcome [ex_job0, ex_job1] = map Inr [0, 1]"
    by (simp add: ex_world_def ex_view_def ex_job0_def ex_job1_def init_def)
  have h5: "list_all (\<lambda>r. r < length (result_heap ex_world)) [0, 1]"
    by (simp add: ex_world_def ex_view_def ex_job0_def ex_job1_def init_def)
  have h6: "wf_world ex_world"
    by (simp add: wf_world_def ex_world_def ex_view_def ex_job0_def ex_job1_def init_def)
  have run: "combine_results ex_view ex_world
       = (Inr 2, ex_view\<lparr>combined_results := Some 2\<rparr>, ex_combined_world)"
    by (simp add: combine_results_def job_result_def deepcopy_def extend_results_def
        ex_world_def ex_view_def ex_job0_def ex_job1_def init_def ex_combined_world_def)
  have l0: "length (results (result_heap ex_world ! 0)) = 3"
    and c0: "results (result_heap ex_combined_world ! 2) ! 0 = 5"
    and al: "concat (map (\<lambda>r. results (result_heap ex_world ! r)) [1]) = [3, 4]"
    by (simp_all add: ex_world_def ex_combined_world_def)
  from combine_results_sharing [OF h1 h2 h3 h4 h5 h6] run
  have kept: "\<forall>r \<in> set [0, 1]. payload ex_combined_world r = payload ex_world r"
    and copies: "\<forall>k < length (results (result_heap ex_world ! 0)). \<forall>v. \<forall>r \<in> set [0, 1].
        payload (set_entry (results (result_heap ex_combined_world ! 2) ! k) v ex_combined_world) r
          = payload ex_world r"
    and aliases: "drop (length (results (result_heap ex_world ! 0)))
        (results (result_heap ex_combined_world ! 2))
          = concat (map (\<lambda>r. results (result_heap ex_world ! r)) [1])"
    by auto
  have "payload ex_combined_world 0 = payload ex_world 0"
    and "payload ex_combined_world 1 = payload ex_world 1"
    using kept by simp_all
  moreover have "payload (set_entry 5 ''x'' ex_combined_world) 0 = payload ex_world 0"
    and "payload (set_entry 5 ''x'' ex_combined_world) 1 = payload ex_world 1"
    using copies [rule_format, of 0 _ "''x''"] by (simp_all add: l0 c0)
  moreover have "drop 3 (results (result_heap ex_combined_world ! 2)) = [3, 4]"
    using aliases by (simp only: l0 al)
  ultimately show ?thesis using h1 h2 h3 h4 h6 run by blast
qed

text \<open>
  C4, as the claim states it, fails for the job set of two jobs: entry 3 of the combined
  object is the entry object at address 3, which is entry 0 of job 1's stored result, and
  changing it through the combined object changes job 1's stored result.
\<close>

theorem combine_results_sharing_counterexample:
  "combine_results ex_view ex_world
     = (Inr 2, ex_view\<lparr>combined_results := Some 2\<rparr>, ex_combined_world)
   \<and> results (result_heap ex_combined_world ! 2) ! 3 = 3
   \<and> results (result_heap ex_combined_world ! 1) ! 0 = 3
   \<and> payload ex_combined_world 1 = (''job1'', [''d'', ''e''])
   \<and> payload (set_entry (results (result_heap ex_combined_world ! 2) ! 3) ''x''
        ex_combined_world) 1 = (''job1'', [''x'', ''e''])"
proof -
  have "combine_results ex_view ex_world
       = (Inr 2, ex_view\<lparr>combined_results := Some 2\<rparr>, ex_combined_world)"
    by (simp add: combine_results_def job_result_def deepcopy_def extend_results_def
        ex_world_def ex_view_def ex_job0_def ex_job1_def init_def ex_combined_world_def)
  then show ?thesis
    by (simp add: payload_def entry_seq_def set_entry_def ex_combined_world_def)
qed

text \<open>
  C5. For a job set of exactly one job, combine\_results returns a new object whose payload
  (header and entry sequence) equals the job's; the job's stored result is as it was, and
  stays so when the returned object or any of its entries is changed in place.
\<close>

theorem combine_results_single_job:
  assumes "success self" and "combined_results self = None"
    and "jobs (job_set self) = [j0]" and "result_outcome j0 = Inr r0"
    and "r0 < length (result_heap w)" and "wf_world w"
  shows "\<exists>c w'. combine_results self w = (Inr c, self\<lparr>combined_results := Some c\<rparr>, w')
       \<and> c \<noteq> r0
       \<and> payload w' c = payload w r0
       \<and> payload w' r0 = payload w r0
       \<and> (\<forall>ro. payload (set_result c ro w') r0 = payload w r0)
       \<and> (\<forall>a \<in> set (results (result_heap w' ! c)). \<forall>v.
             payload (set_entry a v w') r0 = payload w r0)"
proof -
  have outs: "map result_outcome [j0] = map Inr [r0]" using assms(4) by simp
  have refs: "\<forall>r \<in> set [r0]. r < length (result_heap w)" using assms(5) by simp
  from combine_results_frame [OF assms(1,2,3) outs refs assms(6)]
  obtain w' bs where
    run: "combine_results self w
           = (Inr (length (result_heap w)),
              self\<lparr>combined_results := Some (length (result_heap w))\<rparr>, w')"
    and at_c: "results (result_heap w' ! length (result_heap w)) = bs"
    and kept: "payload w' r0 = payload w r0"
    and kept_result: "\<forall>ro. payload (set_result (length (result_heap w)) ro w') r0 = payload w r0"
    and kept_entry: "\<forall>b \<in> set bs. \<forall>v. payload (set_entry b v w') r0 = payload w r0"
    by auto
  from combine_results_entry_seq [OF assms(1,2,3) outs refs assms(6)]
  have same: "payload w' (length (result_heap w)) = payload w r0"
    using run by (auto simp: payload_def)
  have "length (result_heap w) \<noteq> r0" using assms(5) by simp
  then show ?thesis using run at_c kept kept_result kept_entry same by blast
qed

theorem combine_results_single_job_witness:
  "success ex_single_view \<and> combined_results ex_single_view = None
   \<and> jobs (job_set ex_single_view) = [ex_job0] \<and> result_outcome ex_job0 = Inr 0
   \<and> wf_world ex_world
   \<and> combine_results ex_single_view ex_world
       = (Inr 2, ex_single_view\<lparr>combined_results := Some 2\<rparr>, ex_single_world)
   \<and> payload ex_single_world 2 = (''job0'', [''a'', ''b'', ''c''])
   \<and> payload ex_world 0 = (''job0'', [''a'', ''b'', ''c''])
   \<and> payload (set_entry 6 ''x'' ex_single_world) 2 = (''job0'', [''a'', ''x'', ''c''])
   \<and> payload (set_entry 6 ''x'' ex_single_world) 0 = (''job0'', [''a'', ''b'', ''c''])"
proof -
  have h1: "success ex_single_view"
    by (simp add: ex_world_def ex_single_view_def ex_job0_def init_def)
  have h2: "combined_results ex_single_view = None"
    by (simp add: ex_world_def ex_single_view_def ex_job0_def init_def)
  have h3: "jobs (job_set ex_single_view) = [ex_job0]"
    by (simp add: ex_world_def ex_single_view_def ex_job0_def init_def)
  have h4: "result_outcome ex_job0 = Inr 0"
    by (simp add: ex_world_def ex_single_view_def ex_job0_def init_def)
  have h5: "0 < length (result_heap ex_world)"
    by (simp add: ex_world_def ex_single_view_def ex_job0_def init_def)
  have h6: "wf_world ex_world"
    by (simp add: wf_world_def ex_world_def ex_single_view_def ex_job0_def init_def)
  have run: "combine_results ex_single_view ex_world
       = (Inr 2, ex_single_view\<lparr>combined_results := Some 2\<rparr>, ex_single_world)"
    by (simp add: combine_results_def job_result_def deepcopy_def extend_results_def
        ex_world_def ex_single_view_def ex_job0_def init_def ex_single_world_def)
  have six: "6 \<in> set (results (result_heap ex_single_world ! 2))"
    by (simp add: ex_single_world_def)
  have p0: "payload ex_world 0 = (''job0'', [''a'', ''b'', ''c''])"
    by (simp add: payload_def entry_seq_def ex_world_def)
  from combine_results_single_job [OF h1 h2 h3 h4 h5 h6] run six p0
  have "payload ex_single_world 2 = (''job0'', [''a'', ''b'', ''c''])"
    and "payload (set_entry 6 ''x'' ex_single_world) 0 = (''job0'', [''a'', ''b'', ''c''])"
    by auto
  moreover have "payload (set_entry 6 ''x'' ex_single_world) 2 = (''job0'', [''a'', ''x'', ''c''])"
    by (simp add: payload_def entry_seq_def set_entry_def ex_single_world_def)
  ultimately show ?thesis using h1 h2 h3 h4 h6 run p0 by blast
qed

text \<open>
  C6. When the job set's lookup returns no job for an experiment, each of the five query
  methods fails with the SubmissionNotFound error, and fetches nothing.
\<close>

theorem queries_fail_without_job:
  assumes "job (job_set self) experiment = Inr (None, exp_index)"
  shows "data D self w experiment = (Inl (SubmissionNotFound experiment), w)
       \<and> get_memory M self w experiment = (Inl (SubmissionNotFound experiment), w)
       \<and> get_counts N self w experiment = (Inl (SubmissionNotFound experiment), w)
       \<and> get_statevector V self w experiment decimals = (Inl (SubmissionNotFound experiment), w)
       \<and> get_unitary U self w experiment decimals = (Inl (SubmissionNotFound experiment), w)"
  by (simp add: data_def get_memory_def get_counts_def get_statevector_def get_unitary_def
      get_result_not_found [OF assms])

theorem queries_fail_without_job_witness:
  "job (job_set ex_view) (ByName ''z'') = Inr (None, - 1)
   \<and> data ex_entry_at ex_view ex_world (ByName ''z'')
       = (Inl (IBMQManagedResultDataNotAvailable
                 ''Job for experiment z was not successfully submitted.'' None), ex_world)
   \<and> get_unitary ex_entry_rounded ex_view ex_world (ByName ''z'') (Some 3)
       = (Inl (IBMQManagedResultDataNotAvailable
                 ''Job for experiment z was not successfully submitted.'' None), ex_world)"
proof -
  have h: "job (job_set ex_view) (ByName ''z'') = Inr (None, - 1)"
    by (simp add: ex_world_def ex_view_def ex_job0_def ex_job1_def init_def)
  show ?thesis
    using h queries_fail_without_job [OF h, where w = ex_world and D = ex_entry_at
        and M = ex_entry_at and N = ex_entry_at and V = ex_entry_rounded
        and U = ex_entry_rounded and decimals = "Some 3"]
    by (simp add: SubmissionNotFound_def)
qed

text \<open>
  C7. When the lookup finds a job and the job's result() raises a job-layer error, each of
  the five query methods fails with the ResultUnavailable error, whose cause is that
  job-layer error.
\<close>

theorem queries_fail_on_job_error:
  assumes "job (job_set self) experiment = Inr (Some j, exp_index)"
    and "result_outcome j = Inl err" and "is_JobError err"
  shows "data D self w experiment
           = (Inl (ResultUnavailable experiment err), w\<lparr>fetch_log := fetch_log w @ [job_id j]\<rparr>)
       \<and> get_memory M self w experiment
           = (Inl (ResultUnavailable experiment err), w\<lparr>fetch_log := fetch_log w @ [job_id j]\<rparr>)
       \<and> get_counts N self w experiment
           = (Inl (ResultUnavailable experiment err), w\<lparr>fetch_log := fetch_log w @ [job_id j]\<rparr>)
       \<and> get_statevector V self w experiment decimals
           = (Inl (ResultUnavailable experiment err), w\<lparr>fetch_log := fetch_log w @ [job_id j]\<rparr>)
       \<and> get_unitary U self w experiment decimals
           = (Inl (ResultUnavailable experiment err), w\<lparr>fetch_log := fetch_log w @ [job_id j]\<rparr>)
       \<and> cause (ResultUnavailable experiment err) = Some err"
proof -
  have "cause (ResultUnavailable experiment err) = Some err"
    by (simp add: ResultUnavailable_def)
  then show ?thesis
    by (simp add: data_def get_memory_def get_counts_def get_statevector_def get_unitary_def
        get_result_job_error [OF assms])
qed

theorem queries_fail_on_job_error_witness:
  "job (job_set ex_failed_view) (ByName ''f'') = Inr (Some ex_job2, 0)
   \<and> result_outcome ex_job2 = Inl (JobError ''cancelled'')
   \<and> is_JobError (JobError ''cancelled'')
   \<and> get_counts ex_entry_at ex_failed_view ex_world (ByName ''f'')
       = (Inl (IBMQManagedResultDataNotAvailable
                 ''Result data for experiment f is not available.''
                 (Some (JobError ''cancelled''))),
          ex_world\<lparr>fetch_log := [''job2'']\<rparr>)"
proof -
  have h1: "job (job_set ex_failed_view) (ByName ''f'') = Inr (Some ex_job2, 0)"
    by (simp add: ex_failed_view_def init_def)
  have h2: "result_outcome ex_job2 = Inl (JobError ''cancelled'')" by (simp add: ex_job2_def)
  have h3: "is_JobError (JobError ''cancelled'')" by simp
  show ?thesis
    using h1 h2 h3 queries_fail_on_job_error [OF h1 h2 h3, where w = ex_world and D = ex_entry_at
        and M = ex_entry_at and N = ex_entry_at and V = ex_entry_rounded
        and U = ex_entry_rounded and decimals = "Some 3"]
    by (simp add: ResultUnavailable_def ex_job2_def ex_world_def)
qed

text \<open>
  C8. The three failures are returned as errors, never as values: a query on an experiment
  without a job returns SubmissionNotFound, a query whose job raises a job-layer error
  returns ResultUnavailable, a refused combination returns CombinationRefused, and a
  combination in which some job's result() raises returns an error and caches nothing.
  The three errors have pairwise different messages.
\<close>

theorem failures_are_explicit:
  "(job (job_set self) x = Inr (None, i) \<longrightarrow>
      fst (data D self w x) = Inl (SubmissionNotFound x)
      \<and> fst (get_memory M self w x) = Inl (SubmissionNotFound x)
      \<and> fst (get_counts N self w x) = Inl (SubmissionNotFound x)
      \<and> fst (get_statevector V self w x decimals) = Inl (SubmissionNotFound x)
      \<and> fst (get_unitary U self w x decimals) = Inl (SubmissionNotFound x))
   \<and> (job (job_set self) y = Inr (Some j, k) \<and> result_outcome j = Inl err \<and> is_JobError err \<longrightarrow>
      fst (data D self w y) = Inl (ResultUnavailable y err)
      \<and> fst (get_memory M self w y) = Inl (ResultUnavailable y err)
      \<and> fst (get_counts N self w y) = Inl (ResultUnavailable y err)
      \<and> fst (get_statevector V self w y decimals) = Inl (ResultUnavailable y err)
      \<and> fst (get_unitary U self w y decimals) = Inl (ResultUnavailable y err))
   \<and> (combined_results self = None \<and> \<not> success self \<longrightarrow>
      combine_results self w = (Inl CombinationRefused, self, w))
   \<and> (combined_results self = None \<and> (\<exists>j \<in> set (jobs (job_set self)). isl (result_outcome j)) \<longrightarrow>
      (\<exists>e w'. combine_results self w = (Inl e, self, w')))
   \<and> message (SubmissionNotFound x) \<noteq> message (ResultUnavailable y err)
   \<and> message (SubmissionNotFound x) \<noteq> message CombinationRefused
   \<and> message (ResultUnavailable y err) \<noteq> message CombinationRefused"
proof (intro conjI impI)
  assume nf: "job (job_set self) x = Inr (None, i)"
  show "fst (data D self w x) = Inl (SubmissionNotFound x)"
    "fst (get_memory M self w x) = Inl (SubmissionNotFound x)"
    "fst (get_counts N self w x) = Inl (SubmissionNotFound x)"
    "fst (get_statevector V self w x decimals) = Inl (SubmissionNotFound x)"
    "fst (get_unitary U self w x decimals) = Inl (SubmissionNotFound x)"
    by (simp_all add: data_def get_memory_def get_counts_def get_statevector_def
        get_unitary_def get_result_not_found [OF nf])
next
  assume "job (job_set self) y = Inr (Some j, k) \<and> result_outcome j = Inl err \<and> is_JobError err"
  then have a: "job (job_set self) y = Inr (Some j, k)" and b: "result_outcome j = Inl err"
    and c: "is_JobError err" by simp_all
  show "fst (data D self w y) = Inl (ResultUnavailable y err)"
    "fst (get_memory M self w y) = Inl (ResultUnavailable y err)"
    "fst (get_counts N self w y) = Inl (ResultUnavailable y err)"
    "fst (get_statevector V self w y decimals) = Inl (ResultUnavailable y err)"
    "fst (get_unitary U self w y decimals) = Inl (ResultUnavailable y err)"
    by (simp_all add: data_def get_memory_def get_counts_def get_statevector_def
        get_unitary_def get_result_job_error [OF a b c])
next
  assume "combined_results self = None \<and> \<not> success self"
  then show "combine_results self w = (Inl CombinationRefused, self, w)"
    by (simp add: combine_results_refused)
next
  assume "combined_results self = None \<and> (\<exists>j \<in> set (jobs (job_set self)). isl (result_outcome j))"
  then show "\<exists>e w'. combine_results self w = (Inl e, self, w')"
    by (simp add: combine_results_no_partial)
next
  show "message (SubmissionNotFound x) \<noteq> message (ResultUnavailable y err)"
    by (simp add: SubmissionNotFound_def ResultUnavailable_def)
  show "message (SubmissionNotFound x) \<noteq> message CombinationRefused"
    by (simp add: SubmissionNotFound_def CombinationRefused_def)
  show "message (ResultUnavailable y err) \<noteq> message CombinationRefused"
    by (simp add: ResultUnavailable_def CombinationRefused_def)
qed

theorem failures_are_explicit_witness:
  "job (job_set ex_failed_view) (ByName ''z'') = Inr (None, - 1)
   \<and> fst (data ex_entry_at ex_failed_view ex_world (ByName ''z''))
       = Inl (IBMQManagedResultDataNotAvailable
                ''Job for experiment z was not successfully submitted.'' None)
   \<and> job (job_set ex_failed_view) (ByName ''f'') = Inr (Some ex_job2, 0)
   \<and> result_outcome ex_job2 = Inl (JobError ''cancelled'')
   \<and> fst (get_unitary ex_entry_rounded ex_failed_view ex_world (ByName ''f'') None)
       = Inl (IBMQManagedResultDataNotAvailable
                ''Result data for experiment f is not available.''
                (Some (JobError ''cancelled'')))
   \<and> combined_results ex_failed_view = None \<and> \<not> success ex_failed_view
   \<and> combine_results ex_failed_view ex_world
       = (Inl (IBMQManagedResultDataNotAvailable
                 ''Results cannot be combined since some of the jobs failed.'' None),
          ex_failed_view, ex_world)"
proof -
  have h1: "job (job_set ex_failed_view) (ByName ''z'') = Inr (None, - 1)"
    by (simp add: ex_failed_view_def init_def)
  have h2: "job (job_set ex_failed_view) (ByName ''f'') = Inr (Some ex_job2, 0)"
    by (simp add: ex_failed_view_def init_def)
  have h3: "result_outcome ex_job2 = Inl (JobError ''cancelled'')" by (simp add: ex_job2_def)
  have h4: "is_JobError (JobError ''cancelled'')" by simp
  have h5: "combined_results ex_failed_view = None"
    by (simp add: ex_world_def ex_failed_view_def ex_job0_def ex_job1_def ex_job2_def init_def)
  have h6: "\<not> success ex_failed_view"
    by (simp add: ex_world_def ex_failed_view_def ex_job0_def ex_job1_def ex_job2_def init_def)
  show ?thesis
    using h1 h2 h3 h4 h5 h6
      failures_are_explicit [where self = ex_failed_view and w = ex_world
        and x = "ByName ''z''" and i = "- 1" and y = "ByName ''f''" and j = ex_job2 and k = 0
        and err = "JobError ''cancelled''" and D = ex_entry_at and M = ex_entry_at
        and N = ex_entry_at and V = ex_entry_rounded and U = ex_entry_rounded
        and decimals = None]
    by (simp add: SubmissionNotFound_def ResultUnavailable_def CombinationRefused_def)
qed

text \<open>
  C9. When the lookup finds a job and the job's result() returns, each query method
  returns what the accessor of the same name returns for the job's result and the index
  within the job (and, for the statevector and the unitary, the caller's decimals).
\<close>

theorem queries_forward_to_accessor:
  assumes "job (job_set self) experiment = Inr (Some j, exp_index)"
    and "result_outcome j = Inr result"
    and "w' = w\<lparr>fetch_log := fetch_log w @ [job_id j]\<rparr>"
  shows "data Result_data self w experiment = (Result_data w' result exp_index, w')
       \<and> get_memory Result_get_memory self w experiment
           = (Result_get_memory w' result exp_index, w')
       \<and> get_counts Result_get_counts self w experiment
           = (Result_get_counts w' result exp_index, w')
       \<and> get_statevector Result_get_statevector self w experiment decimals
           = (Result_get_statevector w' result exp_index decimals, w')
       \<and> get_unitary Result_get_unitary self w experiment decimals
           = (Result_get_unitary w' result exp_index decimals, w')"
  by (simp add: data_def get_memory_def get_counts_def get_statevector_def get_unitary_def
      get_result_ok [OF assms(1,2)] assms(3))

theorem queries_forward_to_accessor_witness:
  "job (job_set ex_view) (ByName ''d'') = Inr (Some ex_job1, 0)
   \<and> result_outcome ex_job1 = Inr 1
   \<and> get_counts ex_entry_at ex_view ex_world (ByName ''d'')
       = (Inr ''d'', ex_world\<lparr>fetch_log := [''job1'']\<rparr>)
   \<and> get_unitary ex_entry_rounded ex_view ex_world (ByName ''d'') (Some 3)
       = (Inr ''d~3'', ex_world\<lparr>fetch_log := [''job1'']\<rparr>)"
proof -
  have h1: "job (job_set ex_view) (ByName ''d'') = Inr (Some ex_job1, 0)"
    by (simp add: ex_view_def init_def)
  have h2: "result_outcome ex_job1 = Inr 1" by (simp add: ex_job1_def)
  have h3: "ex_world\<lparr>fetch_log := [''job1'']\<rparr>
      = ex_world\<lparr>fetch_log := fetch_log ex_world @ [job_id ex_job1]\<rparr>"
    by (simp add: ex_world_def ex_job1_def)
  show ?thesis
    using h1 h2
      queries_forward_to_accessor [OF h1 h2 h3, where Result_data = ex_entry_at
        and Result_get_memory = ex_entry_at and Result_get_counts = ex_entry_at
        and Result_get_statevector = ex_entry_rounded
        and Result_get_unitary = ex_entry_rounded and decimals = "Some 3"]
    by (simp add: ex_entry_at_def ex_entry_rounded_def entry_seq_def ex_world_def
        str_int_def str_nat.simps)
qed

text \<open>
  C10. With an empty job set, a true success flag and an empty cache, combine\_results
  fails at jobs[0] with IndexError, which is not the documented
  IBMQManagedResultDataNotAvailable; the view and the store are unchanged.
\<close>

theorem combine_results_empty_job_set:
  assumes "success self" and "combined_results self = None" and "jobs (job_set self) = []"
  shows "combine_results self w = (Inl (IndexError ''list index out of range''), self, w)
       \<and> (\<forall>m c. fst (combine_results self w) \<noteq> Inl (IBMQManagedResultDataNotAvailable m c))"
  using assms by (simp add: combine_results_def)

theorem combine_results_empty_job_set_witness:
  "success ex_empty_view \<and> combined_results ex_empty_view = None
   \<and> jobs (job_set ex_empty_view) = []
   \<and> combine_results ex_empty_view ex_world
       = (Inl (IndexError ''list index out of range''), ex_empty_view, ex_world)"
proof -
  have h1: "success ex_empty_view" by (simp add: ex_world_def ex_empty_view_def init_def)
  have h2: "combined_results ex_empty_view = None"
    by (simp add: ex_world_def ex_empty_view_def init_def)
  have h3: "jobs (job_set ex_empty_view) = []"
    by (simp add: ex_world_def ex_empty_view_def init_def)
  show ?thesis
    using h1 h2 h3 combine_results_empty_job_set [OF h1 h2 h3, of ex_world] by simp
qed

end
